theory Spec2Isabelle
  imports Main
begin

section \<open>The orchestrator of Pipeline.h\<close>

text \<open>
  The repository's source is the header \<^verbatim>\<open>kimera-vio/pipeline/Pipeline.h\<close>: the
  declaration of class \<^verbatim>\<open>Pipeline\<close>, its data members with their initialisers, and the
  bodies of its inline member functions. The bodies of the other member functions and
  the classes of the stages and of the queues are in files that are not part of the
  sources.
\<close>

subsection \<open>Logging\<close>

text \<open>
  The header logs through glog's \<^verbatim>\<open>LOG(severity) << message\<close>. A statement of severity
  \<^verbatim>\<open>INFO\<close>, \<^verbatim>\<open>WARNING\<close> or \<^verbatim>\<open>ERROR\<close> writes one line and returns; one of severity
  \<^verbatim>\<open>FATAL\<close> writes its line and terminates the program. A member function is modelled as
  returning the lines it wrote next to the state it leaves, and a run aborts exactly
  when it wrote a line of severity \<^verbatim>\<open>FATAL\<close>.
\<close>

datatype severity = INFO | WARNING | ERROR | FATAL

type_synonym log_line = "severity \<times> string"

definition aborts :: "log_line list \<Rightarrow> bool" where
  "aborts ls = (FATAL \<in> set (map fst ls))"

subsection \<open>Queues and threads as the header holds them\<close>

text \<open>
  Modelled from the spec: \<^verbatim>\<open>ThreadsafeQueue\<close> (kimera-vio/utils/ThreadsafeQueue.h is not
  among the sources). The spec's StageQueue is a FIFO channel with a shutdown signal:
  the payloads waiting in it, oldest first, and whether the signal has been given.
\<close>

record 'a ThreadsafeQueue =
  items :: "'a list"
  stopped :: bool

text \<open>
  A \<^verbatim>\<open>std::unique_ptr<std::thread>\<close> is \<^verbatim>\<open>nullptr\<close> (\<open>None\<close>) or owns a thread, which is
  joinable until it has been joined.
\<close>

datatype thread = Joinable | Joined

subsection \<open>The data members of class Pipeline\<close>

text \<open>
  One field per data member that an operation below reads or writes, under the member's
  own name with its final underscore written as a prime (a name of Isabelle cannot end
  in an underscore): the member \<^verbatim>\<open>shutdown_\<close> is the field \<open>shutdown'\<close>. A \<^verbatim>\<open>UniquePtr\<close> to a stage is an option: \<open>None\<close> is the null pointer, the
  stage that was never instantiated. A \<^verbatim>\<open>std::function\<close> is an option as well: \<open>None\<close>
  is the empty function that a default-constructed member holds. The types of the
  stages, of the payloads and of the callbacks are declared in other headers and are
  type parameters here. The parameter members (\<^verbatim>\<open>backend_params_\<close>,
  \<^verbatim>\<open>frontend_params_\<close>, \<^verbatim>\<open>imu_params_\<close>, \<^verbatim>\<open>stereo_camera_\<close>, \<^verbatim>\<open>feature_selector_\<close>,
  \<^verbatim>\<open>backend_type_\<close>) are read by no inline function; every operation is defined on
  the record scheme, so what is proved holds whatever further members a state carries.
\<close>

record ('kcb, 'fe, 'be, 'me, 'lcd, 'viz, 'pkt, 'ini, 'bin) Pipeline =
  keyframe_rate_output_callback' :: "'kcb option"
  vio_frontend_module' :: "'fe option"
  stereo_frontend_input_queue' :: "'pkt ThreadsafeQueue"
  initialization_frontend_output_queue' :: "'ini ThreadsafeQueue"
  vio_backend_module' :: "'be option"
  backend_input_queue' :: "'bin ThreadsafeQueue"
  mesher_module' :: "'me option"
  lcd_module' :: "'lcd option"
  visualizer_module' :: "'viz option"
  shutdown' :: bool
  is_initialized' :: bool
  is_launched' :: bool
  init_frame_id' :: int
  frontend_thread' :: "thread option"
  backend_thread' :: "thread option"
  mesher_thread' :: "thread option"
  lcd_thread' :: "thread option"
  visualizer_thread' :: "thread option"
  parallel_run' :: bool

subsection \<open>The inline member functions\<close>

text \<open>
  \<^verbatim>\<open>registerKeyFrameRateOutputCallback(callback)\<close>, lines 79 to 82: the single statement
  \<^verbatim>\<open>keyframe_rate_output_callback_ = callback;\<close>. It logs nothing.
\<close>

definition registerKeyFrameRateOutputCallback ::
  "'kcb option \<Rightarrow>
   ('kcb, 'fe, 'be, 'me, 'lcd, 'viz, 'pkt, 'ini, 'bin, 'z) Pipeline_scheme \<Rightarrow>
   ('kcb, 'fe, 'be, 'me, 'lcd, 'viz, 'pkt, 'ini, 'bin, 'z) Pipeline_scheme" where
  "registerKeyFrameRateOutputCallback callback p =
     p\<lparr>keyframe_rate_output_callback' := callback\<rparr>"

text \<open>
  \<^verbatim>\<open>registerLcdPgoOutputCallback(callback)\<close>, lines 85 to 93. When \<^verbatim>\<open>lcd_module_\<close> is not
  null the callback is handed to \<^verbatim>\<open>lcd_module_->registerCallback\<close>; that member function
  of \<^verbatim>\<open>LcdModule\<close> is declared in another header and is the parameter \<open>registerCallback\<close>,
  which maps the callback and the module to the module it leaves. Otherwise one line of
  severity \<^verbatim>\<open>ERROR\<close> is logged and nothing else is done.
\<close>

definition lcd_absent_message :: string where
  "lcd_absent_message =
     ''Attempt to register LCD/PGO callback, but no '' @
     ''LoopClosureDetector member is active in pipeline.''"

definition registerLcdPgoOutputCallback ::
  "('lcb \<Rightarrow> 'lcd \<Rightarrow> 'lcd) \<Rightarrow> 'lcb \<Rightarrow>
   ('kcb, 'fe, 'be, 'me, 'lcd, 'viz, 'pkt, 'ini, 'bin, 'z) Pipeline_scheme \<Rightarrow>
   log_line list \<times> ('kcb, 'fe, 'be, 'me, 'lcd, 'viz, 'pkt, 'ini, 'bin, 'z) Pipeline_scheme" where
  "registerLcdPgoOutputCallback registerCallback callback p =
     (case lcd_module' p of
        Some m \<Rightarrow> ([], p\<lparr>lcd_module' := Some (registerCallback callback m)\<rparr>)
      | None \<Rightarrow> ([(ERROR, lcd_absent_message)], p))"

text \<open>
  The state a constructed object starts from, as far as the header fixes it: the
  initialisers of lines 189 to 199 (the three flags false, the five thread handles
  null) and a default-constructed, empty callback. The stages, the queues, the
  execution mode and \<^verbatim>\<open>init_frame_id_\<close> are set by the constructor, whose body is in
  another file, and are arguments here.
\<close>

definition constructed ::
  "'fe option \<Rightarrow> 'be option \<Rightarrow> 'me option \<Rightarrow> 'lcd option \<Rightarrow> 'viz option \<Rightarrow>
   'pkt ThreadsafeQueue \<Rightarrow> 'ini ThreadsafeQueue \<Rightarrow> 'bin ThreadsafeQueue \<Rightarrow> int \<Rightarrow> bool \<Rightarrow>
   ('kcb, 'fe, 'be, 'me, 'lcd, 'viz, 'pkt, 'ini, 'bin) Pipeline" where
  "constructed fe be me lcd viz fq iq bq fid par =
     \<lparr>keyframe_rate_output_callback' = None,
      vio_frontend_module' = fe,
      stereo_frontend_input_queue' = fq,
      initialization_frontend_output_queue' = iq,
      vio_backend_module' = be,
      backend_input_queue' = bq,
      mesher_module' = me,
      lcd_module' = lcd,
      visualizer_module' = viz,
      shutdown' = False,
      is_initialized' = False,
      is_launched' = False,
      init_frame_id' = fid,
      frontend_thread' = None,
      backend_thread' = None,
      mesher_thread' = None,
      lcd_thread' = None,
      visualizer_thread' = None,
      parallel_run' = par\<rparr>"

subsection \<open>The member functions the class declares\<close>

text \<open>
  The names of the member functions of class \<^verbatim>\<open>Pipeline\<close>, in the order of their
  declarations: the public ones of lines 55 to 93 (the operations the embedding
  application can call; constructor and destructor left out) and the private ones of
  lines 98 to 148. A member function of a C++ class must be declared in the class, so
  these two lists are all the operations the class has.
\<close>

definition public_member_functions :: "string list" where
  "public_member_functions =
     [''spin'', ''spinViz'', ''spinOnce'', ''spinSequential'', ''shutdownWhenFinished'',
      ''shutdown'', ''resume'', ''registerKeyFrameRateOutputCallback'',
      ''registerLcdPgoOutputCallback'']"

definition private_member_functions :: "string list" where
  "private_member_functions =
     [''setDeterministicPipeline'', ''initialize'', ''checkReInitialize'',
      ''initializeFromGroundTruth'', ''initializeFromIMU'', ''initializeOnline'',
      ''spinDisplayOnce'', ''featureSelect'', ''launchThreads'', ''launchFrontendThread'',
      ''launchRemainingThreads'', ''stopThreads'', ''joinThreads'']"

section \<open>Shutdown, from the specification\<close>

text \<open>
  The header declares \<^verbatim>\<open>shutdown\<close>, \<^verbatim>\<open>stopThreads\<close> and \<^verbatim>\<open>joinThreads\<close>; their bodies
  are in Pipeline.cpp, which is not among the sources. The definitions of this section
  follow the specification's lifecycle contract instead.
\<close>

text \<open>
  Modelled from the spec: the shutdown signal of \<^verbatim>\<open>ThreadsafeQueue\<close> (ThreadsafeQueue.h
  is missing). The signal is given once and stays. By the specification's testable
  properties the queues report empty after \<^verbatim>\<open>shutdown()\<close>, their length zero, where
  only a graceful \<^verbatim>\<open>shutdownWhenFinished()\<close> keeps the buffered work; so the signal
  discards the payloads that wait.
\<close>

definition queue_shutdown :: "'a ThreadsafeQueue \<Rightarrow> 'a ThreadsafeQueue" where
  "queue_shutdown q = q\<lparr>items := [], stopped := True\<rparr>"

text \<open>
  Modelled from the spec: \<^verbatim>\<open>Pipeline::stopThreads\<close> (body missing; the header's comment
  is "Shutdown processes and queues"). It signals the shutdown condition of every queue
  the pipeline owns.
\<close>

definition stopThreads ::
  "('kcb, 'fe, 'be, 'me, 'lcd, 'viz, 'pkt, 'ini, 'bin, 'z) Pipeline_scheme \<Rightarrow>
   ('kcb, 'fe, 'be, 'me, 'lcd, 'viz, 'pkt, 'ini, 'bin, 'z) Pipeline_scheme" where
  "stopThreads p =
     p\<lparr>stereo_frontend_input_queue' := queue_shutdown (stereo_frontend_input_queue' p),
       initialization_frontend_output_queue' :=
         queue_shutdown (initialization_frontend_output_queue' p),
       backend_input_queue' := queue_shutdown (backend_input_queue' p)\<rparr>"

text \<open>
  Modelled from the spec: \<^verbatim>\<open>Pipeline::joinThreads\<close> (body missing; the header's comment
  is "Join threads to do a clean shutdown"). Every stage thread that was created is
  joined; a handle that is null stays null.
\<close>

definition join :: "thread option \<Rightarrow> thread option" where
  "join t = (case t of None \<Rightarrow> None | Some _ \<Rightarrow> Some Joined)"

definition joinThreads ::
  "('kcb, 'fe, 'be, 'me, 'lcd, 'viz, 'pkt, 'ini, 'bin, 'z) Pipeline_scheme \<Rightarrow>
   ('kcb, 'fe, 'be, 'me, 'lcd, 'viz, 'pkt, 'ini, 'bin, 'z) Pipeline_scheme" where
  "joinThreads p =
     p\<lparr>frontend_thread' := join (frontend_thread' p),
       backend_thread' := join (backend_thread' p),
       mesher_thread' := join (mesher_thread' p),
       lcd_thread' := join (lcd_thread' p),
       visualizer_thread' := join (visualizer_thread' p)\<rparr>"

text \<open>
  Modelled from the spec: the release of the stage resources at shutdown (body of
  \<^verbatim>\<open>Pipeline::shutdown\<close> missing). The pipeline owns each stage through a \<^verbatim>\<open>UniquePtr\<close>;
  releasing a stage leaves the pointer null.
\<close>

definition release_stages ::
  "('kcb, 'fe, 'be, 'me, 'lcd, 'viz, 'pkt, 'ini, 'bin, 'z) Pipeline_scheme \<Rightarrow>
   ('kcb, 'fe, 'be, 'me, 'lcd, 'viz, 'pkt, 'ini, 'bin, 'z) Pipeline_scheme" where
  "release_stages p =
     p\<lparr>vio_frontend_module' := None,
       vio_backend_module' := None,
       mesher_module' := None,
       lcd_module' := None,
       visualizer_module' := None\<rparr>"

text \<open>
  Modelled from the spec: \<^verbatim>\<open>Pipeline::shutdown\<close> (body missing). In the specification's
  order: it sets the shutdown flag, signals every queue's shutdown condition (which
  leaves the queues empty), joins every stage thread and releases the stage resources.
\<close>

definition shutdown ::
  "('kcb, 'fe, 'be, 'me, 'lcd, 'viz, 'pkt, 'ini, 'bin, 'z) Pipeline_scheme \<Rightarrow>
   ('kcb, 'fe, 'be, 'me, 'lcd, 'viz, 'pkt, 'ini, 'bin, 'z) Pipeline_scheme" where
  "shutdown p = release_stages (joinThreads (stopThreads (p\<lparr>shutdown' := True\<rparr>)))"

section \<open>States to run the operations on\<close>

text \<open>
  A pipeline in parallel mode with a frontend and a backend and no loop-closure stage,
  as constructed; the same pipeline with a loop-closure stage that holds the callback
  3; and a launched pipeline with two packets waiting for the frontend. Callbacks and
  packets are numbers, the loop-closure stage is the list of the callbacks registered
  with it.
\<close>

definition no_lcd :: "(nat, unit, unit, unit, nat list, unit, nat, nat, nat) Pipeline" where
  "no_lcd = constructed (Some ()) (Some ()) None None None
              \<lparr>items = [], stopped = False\<rparr> \<lparr>items = [], stopped = False\<rparr>
              \<lparr>items = [], stopped = False\<rparr> 0 True"

definition with_lcd :: "(nat, unit, unit, unit, nat list, unit, nat, nat, nat) Pipeline" where
  "with_lcd = no_lcd\<lparr>lcd_module' := Some [3]\<rparr>"

definition running :: "(nat, unit, unit, unit, nat list, unit, nat, nat, nat) Pipeline" where
  "running = with_lcd
     \<lparr>stereo_frontend_input_queue' := \<lparr>items = [11, 12], stopped = False\<rparr>,
      is_initialized' := True, is_launched' := True,
      frontend_thread' := Some Joinable, backend_thread' := Some Joinable,
      lcd_thread' := Some Joinable\<rparr>"

section \<open>Registration of the output callbacks\<close>

text \<open>
  C10. \<^verbatim>\<open>registerKeyFrameRateOutputCallback\<close> overwrites the stored keyframe-rate callback
  without any condition: after a registration the stored callback is the one just
  passed, so of two successive registrations only the second is retained and the
  first leaves no trace in the state. Unlike the loop-closure registration it does
  not look at the stage that produces the outputs: it stores the callback also when
  \<^verbatim>\<open>vio_backend_module_\<close> is null, leaves that member as it was, and the state it leaves
  is the same whatever the member holds.
\<close>

theorem registerKeyFrameRateOutputCallback_overwrites:
  "keyframe_rate_output_callback' (registerKeyFrameRateOutputCallback cb p) = cb
   \<and> registerKeyFrameRateOutputCallback cb2 (registerKeyFrameRateOutputCallback cb1 p)
       = registerKeyFrameRateOutputCallback cb2 p
   \<and> keyframe_rate_output_callback'
         (registerKeyFrameRateOutputCallback cb (p\<lparr>vio_backend_module' := None\<rparr>)) = cb
   \<and> vio_backend_module' (registerKeyFrameRateOutputCallback cb p) = vio_backend_module' p
   \<and> registerKeyFrameRateOutputCallback cb (p\<lparr>vio_backend_module' := b\<rparr>)
       = (registerKeyFrameRateOutputCallback cb p)\<lparr>vio_backend_module' := b\<rparr>"
  by (simp add: registerKeyFrameRateOutputCallback_def)

text \<open>
  C7. When the loop-closure stage was never instantiated (\<^verbatim>\<open>lcd_module_\<close> is null),
  \<^verbatim>\<open>registerLcdPgoOutputCallback\<close> reports the configuration error, one line of severity
  \<^verbatim>\<open>ERROR\<close>, and is a no-op: the call does not abort, it leaves the whole state as it was
  (so no callback is stored anywhere, the stage stays absent and the pipeline can go
  on). When the stage exists, the callback is forwarded to the stage's own
  \<^verbatim>\<open>registerCallback\<close>, nothing is logged, and only the stage changes.
\<close>

theorem registerLcdPgoOutputCallback_absent_or_present:
  "(lcd_module' p = None \<longrightarrow>
      registerLcdPgoOutputCallback reg cb p = ([(ERROR, lcd_absent_message)], p)
      \<and> \<not> aborts (fst (registerLcdPgoOutputCallback reg cb p))
      \<and> lcd_module' (snd (registerLcdPgoOutputCallback reg cb p)) = None)
   \<and> (\<forall>m. lcd_module' p = Some m \<longrightarrow>
      registerLcdPgoOutputCallback reg cb p = ([], p\<lparr>lcd_module' := Some (reg cb m)\<rparr>))"
  by (simp add: registerLcdPgoOutputCallback_def aborts_def)

theorem registerLcdPgoOutputCallback_witness:
  "registerLcdPgoOutputCallback (\<lambda>c m. m @ [c]) (7::nat) no_lcd
     = ([(ERROR, lcd_absent_message)], no_lcd)
   \<and> \<not> aborts (fst (registerLcdPgoOutputCallback (\<lambda>c m. m @ [c]) (7::nat) no_lcd))
   \<and> registerLcdPgoOutputCallback (\<lambda>c m. m @ [c]) (7::nat) with_lcd
     = ([], with_lcd\<lparr>lcd_module' := Some [3, 7]\<rparr>)"
proof -
  have n: "lcd_module' no_lcd = None"
    by (simp add: no_lcd_def constructed_def)
  have s: "lcd_module' with_lcd = Some [3]"
    by (simp add: with_lcd_def)
  note a = registerLcdPgoOutputCallback_absent_or_present
             [of no_lcd "\<lambda>c m. m @ [c]" 7, THEN conjunct1, THEN mp, OF n]
  note b = registerLcdPgoOutputCallback_absent_or_present
             [of with_lcd "\<lambda>c m. m @ [c]" 7, THEN conjunct2, THEN spec, THEN mp, OF s]
  from a b show ?thesis by (simp add: aborts_def)
qed

section \<open>The operations the class exposes\<close>

text \<open>
  C8, as the claim states it, fails: the claim needs a \<^verbatim>\<open>pause()\<close> next to \<^verbatim>\<open>resume()\<close>
  among the operations the pipeline exposes, and the class declares no member function
  of that name.
\<close>

theorem pause_and_resume_not_both_exposed:
  "\<not> (''pause'' \<in> set public_member_functions \<and> ''resume'' \<in> set public_member_functions)"
  by (simp add: public_member_functions_def)

text \<open>
  C8, amended. The pipeline exposes \<^verbatim>\<open>resume()\<close> and no \<^verbatim>\<open>pause()\<close>: \<^verbatim>\<open>resume\<close> is one of
  the nine public member functions, and \<^verbatim>\<open>pause\<close> is neither a public nor a private
  member function of the class. A caller therefore has no pause to put in front of its
  submissions, and nothing is stated about such a sequence.
\<close>

theorem resume_exposed_pause_absent:
  "''resume'' \<in> set public_member_functions
   \<and> length public_member_functions = 9
   \<and> ''pause'' \<notin> set public_member_functions
   \<and> ''pause'' \<notin> set private_member_functions"
  by (simp add: public_member_functions_def private_member_functions_def)

section \<open>Shutdown\<close>

lemma join_join: "join (join t) = join t"
  by (cases t) (simp_all add: join_def)

text \<open>
  The launched pipeline, shut down: the flag is set, the queues are signalled and
  empty (the two packets that waited are discarded), the three threads are joined and
  the stages released.
\<close>

lemma shutdown_running:
  "shutdown running =
     running
       \<lparr>vio_frontend_module' := None, vio_backend_module' := None, lcd_module' := None,
        stereo_frontend_input_queue' := \<lparr>items = [], stopped = True\<rparr>,
        initialization_frontend_output_queue' := \<lparr>items = [], stopped = True\<rparr>,
        backend_input_queue' := \<lparr>items = [], stopped = True\<rparr>,
        shutdown' := True,
        frontend_thread' := Some Joined, backend_thread' := Some Joined,
        lcd_thread' := Some Joined\<rparr>"
  by (simp add: shutdown_def release_stages_def joinThreads_def stopThreads_def
      queue_shutdown_def join_def running_def with_lcd_def no_lcd_def constructed_def)

text \<open>
  C3. \<^verbatim>\<open>shutdown()\<close> is idempotent: from every state, a second call made after the first
  has completed leaves the state, that is the flags, the queues with their contents
  and signals, the thread handles and the stages, exactly as the first call left it.
\<close>

theorem shutdown_idempotent: "shutdown (shutdown p) = shutdown p"
  by (simp add: shutdown_def release_stages_def joinThreads_def stopThreads_def
      queue_shutdown_def join_join)

end
